theory Spec2Isabelle
  imports Complex_Main
begin

section \<open>The room synchronisation server (server/index.js)\<close>

text \<open>
  The server keeps two global tables, \<^verbatim>\<open>rooms\<close> (room code to room object) and
  \<^verbatim>\<open>users\<close> (socket id to the joined user's record), and registers one handler per
  inbound socket event. Every handler runs to completion, so a handler is modelled as a
  function from the server state to the new state and the list of events it emits, in
  the order of the \<^verbatim>\<open>emit\<close> calls.
\<close>

subsection \<open>Data\<close>

type_synonym sid = string
type_synonym code = string

text \<open>The object built in \<^verbatim>\<open>join-room\<close> and pushed to \<^verbatim>\<open>room.users\<close>.\<close>

record user =
  uid :: sid
  username :: string
  avatar :: string
  isTyping :: bool

text \<open>The entry of the \<^verbatim>\<open>users\<close> table: \<^verbatim>\<open>{ ...user, roomCode }\<close>.\<close>

record session = user +
  roomCode :: code

record message =
  msg_id :: int
  msg_username :: string
  msg_avatar :: string
  msg_text :: string
  msg_timestamp :: string

record song =
  song_id :: int
  title :: string
  artist :: string
  duration :: string
  addedBy :: string
  url :: string

record room =
  code :: code
  users :: "user list"
  messages :: "message list"
  playlist :: "song list"
  currentSong :: "song option"
  isPlaying :: bool
  currentTime :: real

text \<open>
  The state. \<open>rooms\<close> and \<open>user_table\<close> are the two \<^verbatim>\<open>Map\<close> objects of the source
  (\<^verbatim>\<open>rooms\<close> and \<^verbatim>\<open>users\<close>). \<open>sio_rooms\<close> is the state that socket.io keeps for
  \<^verbatim>\<open>socket.join\<close>: for each room name, the sockets that have joined it.
\<close>

record server =
  rooms :: "code \<rightharpoonup> room"
  user_table :: "sid \<rightharpoonup> session"
  sio_rooms :: "code \<Rightarrow> sid set"

definition init :: server where
  "init = \<lparr>rooms = Map.empty, user_table = Map.empty, sio_rooms = (\<lambda>c. {})\<rparr>"

text \<open>
  The two clock reads of a handler: \<^verbatim>\<open>Date.now()\<close> and
  \<^verbatim>\<open>new Date().toISOString()\<close>. They come with the event.
\<close>

record clock =
  now :: int
  iso :: string

subsection \<open>Outbound events and the three ways of emitting\<close>

datatype out_event =
    RoomCreated code
  | RoomError string
  | RoomJoined room
  | UserJoined user
  | UsersUpdated "user list"
  | NewMessage message
  | UserTyping sid string bool
  | PlaylistUpdated "song list"
  | MusicSync bool real int
  | SongChanged song bool real
  | UserLeft sid

text \<open>
  An emission is the set of sockets an event is delivered to, and the event. The payload
  is encoded inside the \<^verbatim>\<open>emit\<close> call, so an emission holds the values the objects
  have at that point of the handler, not what they are mutated to afterwards.
  \<^item> \<^verbatim>\<open>socket.emit\<close> delivers to the socket of the handler;
  \<^item> \<^verbatim>\<open>io.to(c).emit\<close> delivers to every socket that has joined \<open>c\<close>;
  \<^item> \<^verbatim>\<open>socket.to(c).emit\<close> delivers to every socket that has joined \<open>c\<close> except the
    socket of the handler.

  socket.io also keeps, for each socket, a room named by the socket's id (20 characters).
  The handlers address rooms by the keys of \<^verbatim>\<open>rooms\<close> only, which are generated codes of at
  most 6 characters, so those rooms are left out.
\<close>

type_synonym emission = "sid set \<times> out_event"

definition socket_emit :: "sid \<Rightarrow> out_event \<Rightarrow> emission" where
  "socket_emit sk e = ({sk}, e)"

definition io_to :: "server \<Rightarrow> code \<Rightarrow> out_event \<Rightarrow> emission" where
  "io_to s c e = (sio_rooms s c, e)"

definition socket_to :: "server \<Rightarrow> sid \<Rightarrow> code \<Rightarrow> out_event \<Rightarrow> emission" where
  "socket_to s sk c e = (sio_rooms s c - {sk}, e)"

definition socket_join :: "sid \<Rightarrow> code \<Rightarrow> server \<Rightarrow> server" where
  "socket_join sk c s = s\<lparr>sio_rooms := (sio_rooms s)(c := insert sk (sio_rooms s c))\<rparr>"

text \<open>socket.io removes a closing socket from every room before it fires \<^verbatim>\<open>disconnect\<close>.\<close>

definition socket_leave_all :: "sid \<Rightarrow> server \<Rightarrow> server" where
  "socket_leave_all sk s = s\<lparr>sio_rooms := (\<lambda>c. sio_rooms s c - {sk})\<rparr>"

text \<open>
  A room object is reachable only through the table entry it was stored under, so its
  mutation in place is the update of that entry.
\<close>

definition put_room :: "code \<Rightarrow> room \<Rightarrow> server \<Rightarrow> server" where
  "put_room c r s = s\<lparr>rooms := (rooms s)(c \<mapsto> r)\<rparr>"

subsection \<open>JavaScript operators\<close>

text \<open>
  \<^verbatim>\<open>x || d\<close> on an optional number and on an optional string: the default is taken when
  the field is absent and when it is falsy (\<open>0\<close>, the empty string).
\<close>

definition num_or :: "'a::zero option \<Rightarrow> 'a \<Rightarrow> 'a" where
  "num_or x d = (case x of None \<Rightarrow> d | Some v \<Rightarrow> if v = 0 then d else v)"

definition str_or :: "string option \<Rightarrow> string \<Rightarrow> string" where
  "str_or x d = (case x of None \<Rightarrow> d | Some v \<Rightarrow> if v = [] then d else v)"

text \<open>\<^verbatim>\<open>ToInt32\<close> and \<^verbatim>\<open>hash << 5\<close> on an integral number.\<close>

definition toInt32 :: "int \<Rightarrow> int" where
  "toInt32 x = (x + 2147483648) mod 4294967296 - 2147483648"

definition shl5 :: "int \<Rightarrow> int" where
  "shl5 x = toInt32 (toInt32 x * 32)"

subsection \<open>generateRoomCode and getAvatarColor\<close>

text \<open>
  \<^verbatim>\<open>generateRoomCode\<close> reads \<^verbatim>\<open>Math.random()\<close> and nothing else: it takes no argument
  and does not look at \<^verbatim>\<open>rooms\<close>. Its result is therefore an input of the
  \<^verbatim>\<open>create-room\<close> handler below.
\<close>

definition colors :: "string list" where
  "colors = [''#8B5CF6'', ''#EC4899'', ''#3B82F6'', ''#10B981'', ''#F59E0B'',
             ''#EF4444'', ''#6366F1'', ''#8B5A2B'', ''#059669'', ''#DC2626'']"

text \<open>
  A \<open>string\<close> holds a text in UTF-8. \<^verbatim>\<open>charCodeAt\<close> reads UTF-16 code units:
  \<open>utf16_units\<close> gives the code units of a text, one for a character below U+10000 and a
  surrogate pair above. A byte that does not start a complete sequence is passed on as
  it is; a text that arrives in a payload has no such bytes.
\<close>

definition cont :: "char \<Rightarrow> int" where
  "cont b = of_char b - 0x80"

fun utf16_units :: "string \<Rightarrow> int list" where
  "utf16_units [] = []"
| "utf16_units (a # cs) =
     (let x = of_char a in
      if x < 0xC0 then x # utf16_units cs
      else if x < 0xE0 then
        (case cs of
           b # cs' \<Rightarrow> ((x - 0xC0) * 64 + cont b) # utf16_units cs'
         | [] \<Rightarrow> [x])
      else if x < 0xF0 then
        (case cs of
           b # c # cs' \<Rightarrow> ((x - 0xE0) * 4096 + cont b * 64 + cont c) # utf16_units cs'
         | _ \<Rightarrow> x # utf16_units cs)
      else
        (case cs of
           b # c # d # cs' \<Rightarrow>
             (let p = (x - 0xF0) * 262144 + cont b * 4096 + cont c * 64 + cont d - 0x10000
              in (0xD800 + p div 1024) # (0xDC00 + p mod 1024) # utf16_units cs')
         | _ \<Rightarrow> x # utf16_units cs))"

text \<open>The loop of \<^verbatim>\<open>getAvatarColor\<close> over the code units of the name.\<close>

fun hash_loop :: "int \<Rightarrow> int list \<Rightarrow> int" where
  "hash_loop hash [] = hash"
| "hash_loop hash (c # cs) = hash_loop (c + (shl5 hash - hash)) cs"

definition getAvatarColor :: "string \<Rightarrow> string" where
  "getAvatarColor name =
     colors ! nat (\<bar>hash_loop 0 (utf16_units name)\<bar> mod int (length colors))"

subsection \<open>System messages\<close>

text \<open>
  The prefixes of the system messages, as the template literals of the source file hold
  them: four characters each, U+00F0 U+0178 U+2018 U+2039 in the joined and left
  messages (lines 144 and 276) and U+00F0 U+0178 U+017D U+00B5 in the selected message
  (line 252), in UTF-8.
\<close>

definition wave :: string where
  "wave = [CHR 0xC3, CHR 0xB0, CHR 0xC5, CHR 0xB8, CHR 0xE2, CHR 0x80, CHR 0x98,
           CHR 0xE2, CHR 0x80, CHR 0xB9]"

definition music_note :: string where
  "music_note = [CHR 0xC3, CHR 0xB0, CHR 0xC5, CHR 0xB8, CHR 0xC5, CHR 0xBD, CHR 0xC2, CHR 0xB5]"

definition system_message :: "clock \<Rightarrow> string \<Rightarrow> message" where
  "system_message clk txt =
     \<lparr>msg_id = now clk, msg_username = ''System'', msg_avatar = ''#6366F1'',
      msg_text = txt, msg_timestamp = iso clk\<rparr>"

definition joined_text :: "string \<Rightarrow> string" where
  "joined_text name = wave @ '' '' @ name @ '' joined the room''"

definition left_text :: "string \<Rightarrow> string" where
  "left_text name = wave @ '' '' @ name @ '' left the room''"

definition selected_text :: "string \<Rightarrow> song \<Rightarrow> string" where
  "selected_text name sg =
     music_note @ '' '' @ name @ '' selected '' @ [CHR 0x22] @ title sg @ [CHR 0x22] @ '' by '' @ artist sg"

subsection \<open>The handlers\<close>

definition new_room :: "code \<Rightarrow> room" where
  "new_room c = \<lparr>code = c, users = [], messages = [], playlist = [],
                 currentSong = None, isPlaying = False, currentTime = 0\<rparr>"

definition create_room :: "code \<Rightarrow> sid \<Rightarrow> server \<Rightarrow> server \<times> emission list" where
  "create_room generated sk s =
     (put_room generated (new_room generated) s, [socket_emit sk (RoomCreated generated)])"

definition snapshot :: "code \<Rightarrow> room \<Rightarrow> room" where
  "snapshot c r = \<lparr>code = c, users = users r, messages = messages r, playlist = playlist r,
                   currentSong = currentSong r, isPlaying = isPlaying r,
                   currentTime = currentTime r\<rparr>"

definition join_room :: "clock \<Rightarrow> sid \<Rightarrow> code \<Rightarrow> string \<Rightarrow> server \<Rightarrow> server \<times> emission list" where
  "join_room clk sk c name s =
     (case rooms s c of
        None \<Rightarrow> (s, [socket_emit sk (RoomError ''Room not found'')])
      | Some r \<Rightarrow>
          let u = \<lparr>uid = sk, username = name, avatar = getAvatarColor name, isTyping = False\<rparr>;
              s1 = s\<lparr>user_table := (user_table s)(sk \<mapsto> user.extend u \<lparr>roomCode = c\<rparr>)\<rparr>;
              r1 = r\<lparr>users := users r @ [u]\<rparr>;
              s2 = socket_join sk c (put_room c r1 s1);
              e1 = socket_emit sk (RoomJoined (snapshot c r1));
              e2 = socket_to s2 sk c (UserJoined u);
              e3 = io_to s2 c (UsersUpdated (users r1));
              welcomeMessage = system_message clk (joined_text name);
              r2 = r1\<lparr>messages := messages r1 @ [welcomeMessage]\<rparr>;
              s3 = put_room c r2 s2
          in (s3, [e1, e2, e3, io_to s3 c (NewMessage welcomeMessage)]))"

definition send_message :: "clock \<Rightarrow> sid \<Rightarrow> string \<Rightarrow> server \<Rightarrow> server \<times> emission list" where
  "send_message clk sk txt s =
     (case user_table s sk of
        None \<Rightarrow> (s, [])
      | Some u \<Rightarrow>
          let m = \<lparr>msg_id = now clk, msg_username = username u, msg_avatar = avatar u,
                   msg_text = txt, msg_timestamp = iso clk\<rparr>
          in (case rooms s (roomCode u) of
                None \<Rightarrow> (s, [])
              | Some r \<Rightarrow>
                  let s1 = put_room (roomCode u) (r\<lparr>messages := messages r @ [m]\<rparr>) s
                  in (s1, [io_to s1 (roomCode u) (NewMessage m)])))"

text \<open>\<^verbatim>\<open>find\<close> returns the first entry with the socket's id; that entry is mutated.\<close>

fun set_typing :: "sid \<Rightarrow> bool \<Rightarrow> user list \<Rightarrow> user list" where
  "set_typing sk b [] = []"
| "set_typing sk b (u # us) =
     (if uid u = sk then u\<lparr>isTyping := b\<rparr> # us else u # set_typing sk b us)"

definition typing :: "sid \<Rightarrow> bool \<Rightarrow> server \<Rightarrow> server \<times> emission list" where
  "typing sk b s =
     (case user_table s sk of
        None \<Rightarrow> (s, [])
      | Some u \<Rightarrow>
          (case rooms s (roomCode u) of
             None \<Rightarrow> (s, [])
           | Some r \<Rightarrow>
               (case find (\<lambda>m. uid m = sk) (users r) of
                  None \<Rightarrow> (s, [])
                | Some roomUser \<Rightarrow>
                    let s1 = put_room (roomCode u) (r\<lparr>users := set_typing sk b (users r)\<rparr>) s
                    in (s1, [socket_to s1 sk (roomCode u) (UserTyping sk (username u) b)]))))"

text \<open>The fields of the \<^verbatim>\<open>add-song\<close> payload; \<open>id\<close>, \<open>artist\<close> and \<open>duration\<close> have defaults.\<close>

record song_data =
  d_id :: "int option"
  d_title :: string
  d_artist :: "string option"
  d_duration :: "string option"
  d_url :: string

definition add_song :: "clock \<Rightarrow> sid \<Rightarrow> song_data \<Rightarrow> server \<Rightarrow> server \<times> emission list" where
  "add_song clk sk d s =
     (case user_table s sk of
        None \<Rightarrow> (s, [])
      | Some u \<Rightarrow>
          (case rooms s (roomCode u) of
             None \<Rightarrow> (s, [])
           | Some r \<Rightarrow>
               let sg = \<lparr>song_id = num_or (d_id d) (now clk), title = d_title d,
                         artist = str_or (d_artist d) ''Unknown Artist'',
                         duration = str_or (d_duration d) ''0:00'',
                         addedBy = username u, url = d_url d\<rparr>;
                   r1 = r\<lparr>playlist := playlist r @ [sg]\<rparr>;
                   s1 = put_room (roomCode u) r1 s
               in (s1, [io_to s1 (roomCode u) (PlaylistUpdated (playlist r1))])))"

definition music_control :: "clock \<Rightarrow> sid \<Rightarrow> bool \<Rightarrow> real option \<Rightarrow> server \<Rightarrow> server \<times> emission list" where
  "music_control clk sk playing time s =
     (case user_table s sk of
        None \<Rightarrow> (s, [])
      | Some u \<Rightarrow>
          (case rooms s (roomCode u) of
             None \<Rightarrow> (s, [])
           | Some r \<Rightarrow>
               let r1 = r\<lparr>isPlaying := playing, currentTime := num_or time 0\<rparr>;
                   s1 = put_room (roomCode u) r1 s
               in (s1, [socket_to s1 sk (roomCode u)
                          (MusicSync (isPlaying r1) (currentTime r1) (now clk))])))"

definition select_song :: "clock \<Rightarrow> sid \<Rightarrow> song \<Rightarrow> server \<Rightarrow> server \<times> emission list" where
  "select_song clk sk sg s =
     (case user_table s sk of
        None \<Rightarrow> (s, [])
      | Some u \<Rightarrow>
          (case rooms s (roomCode u) of
             None \<Rightarrow> (s, [])
           | Some r \<Rightarrow>
               let r1 = r\<lparr>currentSong := Some sg, isPlaying := False, currentTime := 0\<rparr>;
                   s1 = put_room (roomCode u) r1 s;
                   e1 = io_to s1 (roomCode u) (SongChanged sg False 0);
                   m = system_message clk (selected_text (username u) sg);
                   s2 = put_room (roomCode u) (r1\<lparr>messages := messages r1 @ [m]\<rparr>) s1
               in (s2, [e1, io_to s2 (roomCode u) (NewMessage m)])))"

definition disconnect :: "clock \<Rightarrow> sid \<Rightarrow> server \<Rightarrow> server \<times> emission list" where
  "disconnect clk sk s0 =
     (let s = socket_leave_all sk s0 in
      case user_table s sk of
        None \<Rightarrow> (s, [])
      | Some u \<Rightarrow>
          (case rooms s (roomCode u) of
             None \<Rightarrow> (s\<lparr>user_table := (user_table s)(sk := None)\<rparr>, [])
           | Some r \<Rightarrow>
               let r1 = r\<lparr>users := filter (\<lambda>m. uid m \<noteq> sk) (users r)\<rparr>;
                   s1 = put_room (roomCode u) r1 s;
                   e1 = socket_to s1 sk (roomCode u) (UserLeft sk);
                   e2 = io_to s1 (roomCode u) (UsersUpdated (users r1));
                   m = system_message clk (left_text (username u));
                   r2 = r1\<lparr>messages := messages r1 @ [m]\<rparr>;
                   s2 = put_room (roomCode u) r2 s1;
                   e3 = io_to s2 (roomCode u) (NewMessage m);
                   s3 = (if users r2 = [] then s2\<lparr>rooms := (rooms s2)(roomCode u := None)\<rparr> else s2)
               in (s3\<lparr>user_table := (user_table s3)(sk := None)\<rparr>, [e1, e2, e3])))"

subsection \<open>Dispatch and runs\<close>

text \<open>
  An inbound event with its payload. A payload has the fields the client sends
  (src/App.tsx), with the types of the client's interface declarations; a field the
  handler reads with a default is an option. \<open>CreateRoom\<close> carries the string that
  \<^verbatim>\<open>generateRoomCode()\<close> returns in that call; the handler does not read its payload.
\<close>

datatype in_event =
    CreateRoom code
  | JoinRoom code string
  | SendMessage string
  | Typing bool
  | AddSong song_data
  | MusicControl bool "real option"
  | SelectSong song
  | Disconnect

fun handle :: "clock \<Rightarrow> sid \<Rightarrow> in_event \<Rightarrow> server \<Rightarrow> server \<times> emission list" where
  "handle clk sk (CreateRoom generated) s = create_room generated sk s"
| "handle clk sk (JoinRoom c name) s = join_room clk sk c name s"
| "handle clk sk (SendMessage txt) s = send_message clk sk txt s"
| "handle clk sk (Typing b) s = typing sk b s"
| "handle clk sk (AddSong d) s = add_song clk sk d s"
| "handle clk sk (MusicControl playing time) s = music_control clk sk playing time s"
| "handle clk sk (SelectSong sg) s = select_song clk sk sg s"
| "handle clk sk Disconnect s = disconnect clk sk s"

type_synonym arrival = "clock \<times> sid \<times> in_event"

fun step :: "server \<Rightarrow> arrival \<Rightarrow> server" where
  "step s (clk, sk, ev) = fst (handle clk sk ev s)"

definition run :: "arrival list \<Rightarrow> server" where
  "run evs = foldl step init evs"

subsection \<open>Properties of states and runs\<close>

text \<open>Every room is stored under its own code.\<close>

definition keyed :: "server \<Rightarrow> bool" where
  "keyed s \<longleftrightarrow> (\<forall>c r. rooms s c = Some r \<longrightarrow> code r = c)"

text \<open>
  The three views of who is in a room agree: the ids listed in \<^verbatim>\<open>room.users\<close>, the
  sockets whose entry in the user table names the room, and the sockets that socket.io
  delivers the room's broadcasts to. A user-table entry always names a live room, and
  nothing is delivered under a code that has no room.
\<close>

definition consistent :: "server \<Rightarrow> bool" where
  "consistent s \<longleftrightarrow>
     (\<forall>sk u. user_table s sk = Some u \<longrightarrow> uid u = sk \<and> rooms s (roomCode u) \<noteq> None) \<and>
     (\<forall>c r. rooms s c = Some r \<longrightarrow>
        uid ` set (users r) = {sk. \<exists>u. user_table s sk = Some u \<and> roomCode u = c} \<and>
        sio_rooms s c = uid ` set (users r)) \<and>
     (\<forall>c. rooms s c = None \<longrightarrow> sio_rooms s c = {})"

text \<open>
  Two things the handlers do not check: that the generated code of \<^verbatim>\<open>create-room\<close> is
  not the code of a live room, and that the socket of \<^verbatim>\<open>join-room\<close> has not joined
  already. An arrival is admissible in a state when neither happens.
\<close>

fun admissible :: "server \<Rightarrow> arrival \<Rightarrow> bool" where
  "admissible s (clk, sk, CreateRoom generated) = (rooms s generated = None)"
| "admissible s (clk, sk, JoinRoom c name) = (user_table s sk = None)"
| "admissible s (clk, sk, ev) = True"

fun orderly_from :: "server \<Rightarrow> arrival list \<Rightarrow> bool" where
  "orderly_from s [] = True"
| "orderly_from s (a # as) = (admissible s a \<and> orderly_from (step s a) as)"

text \<open>The \<^verbatim>\<open>music-control\<close> payloads of a run carry no negative \<^verbatim>\<open>currentTime\<close>.\<close>

fun nonneg_control :: "arrival \<Rightarrow> bool" where
  "nonneg_control (clk, sk, MusicControl playing (Some t)) = (0 \<le> t)"
| "nonneg_control (clk, sk, ev) = True"

text \<open>No room of the table has a negative \<^verbatim>\<open>currentTime\<close>.\<close>

definition nonneg_rooms :: "server \<Rightarrow> bool" where
  "nonneg_rooms s \<longleftrightarrow> (\<forall>c r. rooms s c = Some r \<longrightarrow> 0 \<le> currentTime r)"

text \<open>The user object that \<^verbatim>\<open>join-room\<close> builds for a socket and a name.\<close>

definition participant :: "sid \<Rightarrow> string \<Rightarrow> user" where
  "participant sk name =
     \<lparr>uid = sk, username = name, avatar = getAvatarColor name, isTyping = False\<rparr>"

text \<open>The playback fields of a room.\<close>

definition playback :: "room \<Rightarrow> song option \<times> bool \<times> real" where
  "playback r = (currentSong r, isPlaying r, currentTime r)"

subsection \<open>Example states\<close>

definition clk0 :: clock where
  "clk0 = \<lparr>now = 1700000000000, iso = ''2023-11-14T22:13:20.000Z''\<rparr>"

definition ann :: user where
  "ann = \<lparr>uid = ''c1'', username = ''Ann'', avatar = getAvatarColor ''Ann'', isTyping = False\<rparr>"

definition tune :: song where
  "tune = \<lparr>song_id = 7, title = ''Tune'', artist = ''Band'', duration = ''3:05'',
           addedBy = ''Bo'', url = ''blob:7''\<rparr>"

text \<open>Scenario A of the specification: Ann creates room AB12CD and joins it.\<close>

definition ann_created :: "arrival list" where
  "ann_created = [(clk0, ''c1'', CreateRoom ''AB12CD'')]"

definition ann_joined :: "arrival list" where
  "ann_joined = ann_created @ [(clk0, ''c1'', JoinRoom ''AB12CD'' ''Ann'')]"

text \<open>One socket joins a first room and then a second one.\<close>

definition ann_joined_twice :: "arrival list" where
  "ann_joined_twice =
     [(clk0, ''c1'', CreateRoom ''AAAAAA''), (clk0, ''c1'', CreateRoom ''BBBBBB''),
      (clk0, ''c1'', JoinRoom ''AAAAAA'' ''Ann''), (clk0, ''c1'', JoinRoom ''BBBBBB'' ''Ann'')]"

text \<open>The \<^verbatim>\<open>join-room\<close> of Scenario A arrives a second time from the same socket.\<close>

definition ann_joined_again :: "arrival list" where
  "ann_joined_again = ann_joined @ [(clk0, ''c1'', JoinRoom ''AB12CD'' ''Ann'')]"

text \<open>Bo joins Ann's room from a second socket.\<close>

definition bo :: user where
  "bo = \<lparr>uid = ''c2'', username = ''Bo'', avatar = getAvatarColor ''Bo'', isTyping = False\<rparr>"

definition ann_bo_joined :: "arrival list" where
  "ann_bo_joined = ann_joined @ [(clk0, ''c2'', JoinRoom ''AB12CD'' ''Bo'')]"



section \<open>Basic facts\<close>

lemma rooms_put_room [simp]: "rooms (put_room c r s) = (rooms s)(c \<mapsto> r)"
  by (simp add: put_room_def)

lemma user_table_put_room [simp]: "user_table (put_room c r s) = user_table s"
  by (simp add: put_room_def)

lemma sio_rooms_put_room [simp]: "sio_rooms (put_room c r s) = sio_rooms s"
  by (simp add: put_room_def)

lemma put_room_twice [simp]: "put_room c r2 (put_room c r1 s) = put_room c r2 s"
  by (simp add: put_room_def)

lemma rooms_socket_join [simp]: "rooms (socket_join sk c s) = rooms s"
  by (simp add: socket_join_def)

lemma user_table_socket_join [simp]: "user_table (socket_join sk c s) = user_table s"
  by (simp add: socket_join_def)

lemma sio_rooms_socket_join [simp]:
  "sio_rooms (socket_join sk c s) = (sio_rooms s)(c := insert sk (sio_rooms s c))"
  by (simp add: socket_join_def)

lemma rooms_socket_leave_all [simp]: "rooms (socket_leave_all sk s) = rooms s"
  by (simp add: socket_leave_all_def)

lemma user_table_socket_leave_all [simp]: "user_table (socket_leave_all sk s) = user_table s"
  by (simp add: socket_leave_all_def)

lemma sio_rooms_socket_leave_all [simp]: "sio_rooms (socket_leave_all sk s) c = sio_rooms s c - {sk}"
  by (simp add: socket_leave_all_def)

lemma num_or_Some_0 [simp]: "num_or (Some t) 0 = t"
  by (simp add: num_or_def)

lemma num_or_None [simp]: "num_or None d = d"
  by (simp add: num_or_def)

lemmas emit_defs = socket_emit_def io_to_def socket_to_def

text \<open>The state of Scenario A.\<close>

lemma ann_joined_user:
  "user_table (run ann_joined) ''c1'' = Some (user.extend ann \<lparr>roomCode = ''AB12CD''\<rparr>)"
  by (simp add: ann_joined_def ann_created_def run_def init_def create_room_def join_room_def
      Let_def ann_def)

lemma ann_joined_room:
  "rooms (run ann_joined) ''AB12CD'' =
     Some ((new_room ''AB12CD'')\<lparr>users := [ann],
             messages := [system_message clk0 (joined_text ''Ann'')]\<rparr>)"
  by (simp add: ann_joined_def ann_created_def run_def init_def create_room_def join_room_def
      Let_def ann_def new_room_def)

lemma ann_joined_sio: "sio_rooms (run ann_joined) ''AB12CD'' = {''c1''}"
  by (simp add: ann_joined_def ann_created_def run_def init_def create_room_def join_room_def
      Let_def)

lemma roomCode_extend [simp]: "roomCode (user.extend u \<lparr>roomCode = c\<rparr>) = c"
  by (simp add: user.extend_def)

lemma username_extend [simp]: "username (user.extend u x) = username u"
  by (simp add: user.extend_def)

lemma uid_extend [simp]: "uid (user.extend u x) = uid u"
  by (simp add: user.extend_def)

section \<open>Playback\<close>

text \<open>
  C4 (select-song reset). A socket that has joined a live room selects a song \<open>sg\<close>.
  Whatever the room's playback fields were, the handler leaves the room with
  \<open>currentSong = sg\<close>, \<open>isPlaying = false\<close> and \<open>currentTime = 0\<close>, all within the one
  handler call, and announces exactly these values. Selecting the same song again gives
  the same three playback fields.
\<close>

theorem select_song_reset:
  assumes "user_table s sk = Some u" and "rooms s (roomCode u) = Some r"
  shows "select_song clk sk sg s =
           (put_room (roomCode u)
              (r\<lparr>currentSong := Some sg, isPlaying := False, currentTime := 0,
                  messages := messages r @ [system_message clk (selected_text (username u) sg)]\<rparr>) s,
            [(sio_rooms s (roomCode u), SongChanged sg False 0),
             (sio_rooms s (roomCode u),
              NewMessage (system_message clk (selected_text (username u) sg)))])
         \<and> map_option playback (rooms (fst (select_song clk sk sg s)) (roomCode u))
             = Some (Some sg, False, 0)
         \<and> map_option playback
              (rooms (fst (select_song clk' sk sg (fst (select_song clk sk sg s)))) (roomCode u))
             = Some (Some sg, False, 0)"
  using assms by (simp add: select_song_def Let_def emit_defs playback_def)

theorem select_song_reset_witness:
  "map_option playback
     (rooms (fst (select_song clk0 ''c1'' tune
        (fst (music_control clk0 ''c1'' True (Some 42) (run ann_joined))))) ''AB12CD'')
   = Some (Some tune, False, 0)"
proof -
  let ?s = "fst (music_control clk0 ''c1'' True (Some 42) (run ann_joined))"
  have u: "user_table ?s ''c1'' = Some (user.extend ann \<lparr>roomCode = ''AB12CD''\<rparr>)"
    by (simp add: music_control_def ann_joined_user ann_joined_room Let_def)
  have r: "rooms ?s (roomCode (user.extend ann \<lparr>roomCode = ''AB12CD''\<rparr>)) =
      Some ((new_room ''AB12CD'')\<lparr>users := [ann],
             messages := [system_message clk0 (joined_text ''Ann'')],
             isPlaying := True, currentTime := 42\<rparr>)"
    by (simp add: music_control_def ann_joined_user ann_joined_room Let_def)
  have "map_option playback
     (rooms (fst (select_song clk0 ''c1'' tune ?s))
        (roomCode (user.extend ann \<lparr>roomCode = ''AB12CD''\<rparr>)))
   = Some (Some tune, False, 0)"
    using select_song_reset [OF u r, of clk0 tune clk0] by (rule conjunct1 [OF conjunct2])
  then show ?thesis by (simp only: roomCode_extend)
qed





section \<open>Errors\<close>

text \<open>
  C7 (room not found). A \<^verbatim>\<open>join-room\<close> whose code has no room in the table emits one
  event, \<^verbatim>\<open>room-error\<close>, to the requesting socket only, and returns the state as it was:
  room table, user table, every room and the broadcast groups are unchanged.
\<close>

theorem join_room_not_found:
  "rooms s c = None \<Longrightarrow> join_room clk sk c name s = (s, [({sk}, RoomError ''Room not found'')])"
  by (simp add: join_room_def socket_emit_def)

theorem join_room_not_found_witness:
  "join_room clk0 ''c2'' ''ZZZZZZ'' ''Bo'' (run ann_joined) =
     (run ann_joined, [({''c2''}, RoomError ''Room not found'')])"
proof -
  have "rooms (run ann_joined) ''ZZZZZZ'' = None"
    by (simp add: ann_joined_def ann_created_def run_def init_def create_room_def join_room_def Let_def)
  then show ?thesis by (rule join_room_not_found)
qed

text \<open>
  C8 (events of a socket without a user-table entry). Each of \<^verbatim>\<open>send-message\<close>,
  \<^verbatim>\<open>typing\<close>, \<^verbatim>\<open>add-song\<close>, \<^verbatim>\<open>music-control\<close> and \<^verbatim>\<open>select-song\<close>, arriving from a
  socket that has no entry in the user table, returns the state unchanged and emits
  nothing, to nobody.
\<close>

theorem orphan_event_dropped:
  "user_table s sk = None \<Longrightarrow>
     send_message clk sk txt s = (s, []) \<and> typing sk b s = (s, []) \<and> add_song clk sk d s = (s, [])
     \<and> music_control clk sk playing time s = (s, []) \<and> select_song clk sk sg s = (s, [])"
  by (simp add: send_message_def typing_def add_song_def music_control_def select_song_def)

theorem orphan_event_dropped_witness:
  "send_message clk0 ''c9'' ''hi'' (run ann_joined) = (run ann_joined, [])
   \<and> typing ''c9'' True (run ann_joined) = (run ann_joined, [])
   \<and> add_song clk0 ''c9''
        \<lparr>d_id = None, d_title = ''T'', d_artist = None, d_duration = None, d_url = ''u''\<rparr>
        (run ann_joined) = (run ann_joined, [])
   \<and> music_control clk0 ''c9'' True (Some 3) (run ann_joined) = (run ann_joined, [])
   \<and> select_song clk0 ''c9'' tune (run ann_joined) = (run ann_joined, [])"
proof -
  have "user_table (run ann_joined) ''c9'' = None"
    by (simp add: ann_joined_def ann_created_def run_def init_def create_room_def join_room_def Let_def)
  then show ?thesis by (rule orphan_event_dropped)
qed


section \<open>Runs\<close>

lemma run_snoc: "run (evs @ [a]) = step (run evs) a"
  by (simp add: run_def)

lemma run_Nil: "run [] = init"
  by (simp add: run_def)

subsection \<open>Rooms are stored under their code\<close>

lemma keyed_init: "keyed init"
  by (simp add: keyed_def init_def)

lemma keyed_handle: "keyed s \<Longrightarrow> keyed (fst (handle clk sk ev s))"
  by (cases ev)
     (auto simp: keyed_def create_room_def join_room_def send_message_def typing_def add_song_def
        music_control_def select_song_def disconnect_def Let_def new_room_def
        split: option.splits if_splits)

lemma keyed_run: "keyed (run evs)"
proof (induction evs rule: rev_induct)
  case Nil
  show ?case by (simp add: run_Nil keyed_init)
next
  case (snoc a evs)
  obtain clk sk ev where a: "a = (clk, sk, ev)" by (cases a)
  show ?case using snoc by (simp add: run_snoc a keyed_handle)
qed

subsection \<open>The playhead under non-negative controls\<close>

lemma nonneg_init: "nonneg_rooms init"
  by (simp add: nonneg_rooms_def init_def)

lemma nonneg_handle:
  "nonneg_rooms s \<Longrightarrow> nonneg_control (clk, sk, ev) \<Longrightarrow> nonneg_rooms (fst (handle clk sk ev s))"
proof (cases ev)
  case (MusicControl playing time)
  assume "nonneg_rooms s" "nonneg_control (clk, sk, ev)"
  then show ?thesis using MusicControl
    by (cases time) (auto simp: nonneg_rooms_def music_control_def Let_def split: option.splits)
qed (auto simp: nonneg_rooms_def create_room_def join_room_def send_message_def typing_def add_song_def
        select_song_def disconnect_def Let_def new_room_def
        split: option.splits if_splits)

lemma nonneg_run: "list_all nonneg_control evs \<Longrightarrow> nonneg_rooms (run evs)"
proof (induction evs rule: rev_induct)
  case Nil
  show ?case by (simp add: run_Nil nonneg_init)
next
  case (snoc a evs)
  obtain clk sk ev where a: "a = (clk, sk, ev)" by (cases a)
  show ?case using snoc by (simp add: run_snoc a nonneg_handle)
qed

subsection \<open>Membership in orderly runs\<close>


lemma map_uid_set_typing [simp]: "map uid (set_typing sk b us) = map uid us"
  by (induction us) auto

lemma uid_set_typing [simp]: "uid ` set (set_typing sk b us) = uid ` set us"
  using map_uid_set_typing [of sk b us] by (metis set_map)

lemma consistent_init: "consistent init"
  by (simp add: consistent_def init_def)

lemma consistent_uid: "consistent s \<Longrightarrow> user_table s sk = Some u \<Longrightarrow> uid u = sk"
  by (simp add: consistent_def)

lemma consistent_live: "consistent s \<Longrightarrow> user_table s sk = Some u \<Longrightarrow> \<exists>r. rooms s (roomCode u) = Some r"
  by (auto simp: consistent_def)

lemma consistent_members:
  "consistent s \<Longrightarrow> rooms s c = Some r \<Longrightarrow>
     uid ` set (users r) = {sk. \<exists>u. user_table s sk = Some u \<and> roomCode u = c}"
  by (simp add: consistent_def)

lemma consistent_sio: "consistent s \<Longrightarrow> rooms s c = Some r \<Longrightarrow> sio_rooms s c = uid ` set (users r)"
  by (simp add: consistent_def)

lemma consistent_no_room: "consistent s \<Longrightarrow> rooms s c = None \<Longrightarrow> sio_rooms s c = {}"
  by (simp add: consistent_def)

lemma consistent_put_room:
  assumes s: "consistent s" and r: "rooms s c = Some r" and u: "uid ` set (users r') = uid ` set (users r)"
  shows "consistent (put_room c r' s)"
  unfolding consistent_def
proof (intro conjI allI impI)
  fix sk u assume "user_table (put_room c r' s) sk = Some u"
  then have t: "user_table s sk = Some u" by simp
  show "uid u = sk" using consistent_uid [OF s t] .
  show "rooms (put_room c r' s) (roomCode u) \<noteq> None"
    using consistent_live [OF s t] by auto
next
  fix c' r'' assume a: "rooms (put_room c r' s) c' = Some r''"
  show "uid ` set (users r'') =
        {sk. \<exists>u. user_table (put_room c r' s) sk = Some u \<and> roomCode u = c'}"
  proof (cases "c' = c")
    case True
    with a have "r'' = r'" by simp
    then show ?thesis using u consistent_members [OF s r] True by simp
  next
    case False
    with a have "rooms s c' = Some r''" by simp
    then show ?thesis using consistent_members [OF s] by simp
  qed
  show "sio_rooms (put_room c r' s) c' = uid ` set (users r'')"
  proof (cases "c' = c")
    case True
    with a have "r'' = r'" by simp
    then show ?thesis using u consistent_sio [OF s r] True by simp
  next
    case False
    with a have "rooms s c' = Some r''" by simp
    then show ?thesis using consistent_sio [OF s] by simp
  qed
next
  fix c' assume "rooms (put_room c r' s) c' = None"
  then have "rooms s c' = None" by (simp split: if_splits)
  then show "sio_rooms (put_room c r' s) c' = {}" using consistent_no_room [OF s] by simp
qed

lemma consistent_send: "consistent s \<Longrightarrow> consistent (fst (send_message clk sk txt s))"
  by (auto simp: send_message_def Let_def consistent_put_room split: option.splits)

lemma consistent_add: "consistent s \<Longrightarrow> consistent (fst (add_song clk sk d s))"
  by (auto simp: add_song_def Let_def consistent_put_room split: option.splits)

lemma consistent_music: "consistent s \<Longrightarrow> consistent (fst (music_control clk sk p t s))"
  by (auto simp: music_control_def Let_def consistent_put_room split: option.splits)

lemma consistent_select: "consistent s \<Longrightarrow> consistent (fst (select_song clk sk sg s))"
  by (auto simp: select_song_def Let_def consistent_put_room split: option.splits)

lemma consistent_typing: "consistent s \<Longrightarrow> consistent (fst (typing sk b s))"
  by (auto simp: typing_def Let_def consistent_put_room split: option.splits)

lemma consistent_create:
  assumes s: "consistent s" and g: "rooms s g = None"
  shows "consistent (fst (create_room g sk s))"
  unfolding consistent_def create_room_def fst_conv
proof (intro conjI allI impI)
  fix sk u assume "user_table (put_room g (new_room g) s) sk = Some u"
  then have t: "user_table s sk = Some u" by simp
  show "uid u = sk" using consistent_uid [OF s t] .
  show "rooms (put_room g (new_room g) s) (roomCode u) \<noteq> None"
    using consistent_live [OF s t] by auto
next
  fix c r assume a: "rooms (put_room g (new_room g) s) c = Some r"
  have none: "\<And>sk u. user_table s sk = Some u \<Longrightarrow> roomCode u \<noteq> g"
    using consistent_live [OF s] g by fastforce
  show "uid ` set (users r) = {sk. \<exists>u. user_table (put_room g (new_room g) s) sk = Some u \<and> roomCode u = c}"
  proof (cases "c = g")
    case True
    with a have "r = new_room g" by simp
    then show ?thesis using none True by (auto simp: new_room_def)
  next
    case False
    with a have "rooms s c = Some r" by simp
    then show ?thesis using consistent_members [OF s] by simp
  qed
  show "sio_rooms (put_room g (new_room g) s) c = uid ` set (users r)"
  proof (cases "c = g")
    case True
    with a have "r = new_room g" by simp
    then show ?thesis using consistent_no_room [OF s g] True by (simp add: new_room_def)
  next
    case False
    with a have "rooms s c = Some r" by simp
    then show ?thesis using consistent_sio [OF s] by simp
  qed
next
  fix c assume "rooms (put_room g (new_room g) s) c = None"
  then have "rooms s c = None" by (simp split: if_splits)
  then show "sio_rooms (put_room g (new_room g) s) c = {}" using consistent_no_room [OF s] by simp
qed


lemma join_room_found:
  assumes "rooms s c = Some r"
  shows "join_room clk sk c name s =
     (s\<lparr>user_table := (user_table s)(sk \<mapsto> user.extend (participant sk name) \<lparr>roomCode = c\<rparr>),
        rooms := (rooms s)(c \<mapsto> r\<lparr>users := users r @ [participant sk name],
                    messages := messages r @ [system_message clk (joined_text name)]\<rparr>),
        sio_rooms := (sio_rooms s)(c := insert sk (sio_rooms s c))\<rparr>,
      [({sk}, RoomJoined \<lparr>code = c, users = users r @ [participant sk name], messages = messages r,
                         playlist = playlist r, currentSong = currentSong r,
                         isPlaying = isPlaying r, currentTime = currentTime r\<rparr>),
       (sio_rooms s c - {sk}, UserJoined (participant sk name)),
       (insert sk (sio_rooms s c), UsersUpdated (users r @ [participant sk name])),
       (insert sk (sio_rooms s c), NewMessage (system_message clk (joined_text name)))])"
  using assms
  by (simp add: join_room_def Let_def emit_defs snapshot_def participant_def put_room_def socket_join_def)

lemma uid_participant [simp]: "uid (participant sk name) = sk"
  by (simp add: participant_def)

lemma consistent_join:
  assumes s: "consistent s" and fresh: "user_table s sk = None"
  shows "consistent (fst (join_room clk sk c name s))"
proof (cases "rooms s c")
  case None
  then show ?thesis using s by (simp add: join_room_def)
next
  case (Some r)
  let ?s' = "fst (join_room clk sk c name s)"
  have ut: "user_table ?s' = (user_table s)(sk \<mapsto> user.extend (participant sk name) \<lparr>roomCode = c\<rparr>)"
    and rm: "rooms ?s' = (rooms s)(c \<mapsto> r\<lparr>users := users r @ [participant sk name],
                    messages := messages r @ [system_message clk (joined_text name)]\<rparr>)"
    and sio: "sio_rooms ?s' = (sio_rooms s)(c := insert sk (sio_rooms s c))"
    by (simp_all add: join_room_found [OF Some])
  show ?thesis unfolding consistent_def
  proof (intro conjI allI impI)
    fix x u assume a: "user_table ?s' x = Some u"
    show "uid u = x" using a consistent_uid [OF s, of x u] by (auto simp: ut split: if_splits)
    show "rooms ?s' (roomCode u) \<noteq> None"
      using a consistent_live [OF s, of x u] by (auto simp: ut rm split: if_splits)
  next
    fix c' r' assume a: "rooms ?s' c' = Some r'"
    show "uid ` set (users r') = {x. \<exists>u. user_table ?s' x = Some u \<and> roomCode u = c'}"
    proof (cases "c' = c")
      case True
      with a have "users r' = users r @ [participant sk name]" by (auto simp: rm)
      then show ?thesis using consistent_members [OF s Some] True fresh by (auto simp: ut)
    next
      case False
      with a have "rooms s c' = Some r'" by (simp add: rm)
      from consistent_members [OF s this] show ?thesis using False fresh by (auto simp: ut)
    qed
    show "sio_rooms ?s' c' = uid ` set (users r')"
    proof (cases "c' = c")
      case True
      with a have "users r' = users r @ [participant sk name]" by (auto simp: rm)
      then show ?thesis using consistent_sio [OF s Some] True by (auto simp: sio)
    next
      case False
      with a have "rooms s c' = Some r'" by (simp add: rm)
      from consistent_sio [OF s this] show ?thesis using False by (simp add: sio)
    qed
  next
    fix c' assume "rooms ?s' c' = None"
    then have "rooms s c' = None" "c' \<noteq> c" by (auto simp: rm split: if_splits)
    then show "sio_rooms ?s' c' = {}" using consistent_no_room [OF s] by (simp add: sio)
  qed
qed

lemma disconnect_no_user:
  "user_table s sk = None \<Longrightarrow> disconnect clk sk s = (socket_leave_all sk s, [])"
  by (simp add: disconnect_def Let_def)

lemma disconnect_found:
  assumes "user_table s sk = Some u" and "rooms s (roomCode u) = Some r"
  shows "user_table (fst (disconnect clk sk s)) = (user_table s)(sk := None)"
    and "sio_rooms (fst (disconnect clk sk s)) c = sio_rooms s c - {sk}"
    and "rooms (fst (disconnect clk sk s)) =
           (if filter (\<lambda>m. uid m \<noteq> sk) (users r) = [] then (rooms s)(roomCode u := None)
            else (rooms s)(roomCode u \<mapsto> r\<lparr>users := filter (\<lambda>m. uid m \<noteq> sk) (users r),
                     messages := messages r @ [system_message clk (left_text (username u))]\<rparr>))"
  using assms by (simp_all add: disconnect_def Let_def)

lemma consistent_disconnect:
  assumes s: "consistent s"
  shows "consistent (fst (disconnect clk sk s))"
proof (cases "user_table s sk")
  case None
  have no: "\<And>c r. rooms s c = Some r \<Longrightarrow> sk \<notin> uid ` set (users r)"
    using consistent_members [OF s] None by auto
  show ?thesis unfolding consistent_def disconnect_no_user [OF None] fst_conv
  proof (intro conjI allI impI)
    fix x u assume a: "user_table (socket_leave_all sk s) x = Some u"
    show "uid u = x" using a consistent_uid [OF s, of x u] by simp
    show "rooms (socket_leave_all sk s) (roomCode u) \<noteq> None"
      using a consistent_live [OF s, of x u] by auto
  next
    fix c r assume a: "rooms (socket_leave_all sk s) c = Some r"
    then have r: "rooms s c = Some r" by simp
    show "uid ` set (users r) = {x. \<exists>u. user_table (socket_leave_all sk s) x = Some u \<and> roomCode u = c}"
      using consistent_members [OF s r] by simp
    show "sio_rooms (socket_leave_all sk s) c = uid ` set (users r)"
      using consistent_sio [OF s r] no [OF r] by simp
  next
    fix c assume "rooms (socket_leave_all sk s) c = None"
    then show "sio_rooms (socket_leave_all sk s) c = {}" using consistent_no_room [OF s, of c] by simp
  qed
next
  case (Some u)
  from consistent_live [OF s Some] obtain r where r: "rooms s (roomCode u) = Some r" by blast
  let ?s' = "fst (disconnect clk sk s)"
  let ?us = "filter (\<lambda>m. uid m \<noteq> sk) (users r)"
  note d = disconnect_found [OF Some r, of clk]
  have us: "uid ` set ?us = uid ` set (users r) - {sk}" by auto
  show ?thesis unfolding consistent_def
  proof (intro conjI allI impI)
    fix x u' assume a: "user_table ?s' x = Some u'"
    then have x: "x \<noteq> sk" and t: "user_table s x = Some u'" by (auto simp: d split: if_splits)
    show "uid u' = x" using consistent_uid [OF s t] .
    show "rooms ?s' (roomCode u') \<noteq> None"
    proof (cases "roomCode u' = roomCode u")
      case True
      have "x \<in> uid ` set (users r)" using consistent_members [OF s r] t True by auto
      with x have mem: "x \<in> uid ` set ?us" using us by simp
      have "?us \<noteq> []"
      proof
        assume e: "?us = []"
        from mem show False unfolding e by simp
      qed
      then show ?thesis using True by (simp add: d)
    next
      case False
      then show ?thesis using consistent_live [OF s t] by (auto simp: d)
    qed
  next
    fix c r' assume a: "rooms ?s' c = Some r'"
    have "uid ` set (users r') = {x. \<exists>u. user_table ?s' x = Some u \<and> roomCode u = c}
          \<and> sio_rooms ?s' c = uid ` set (users r')"
    proof (cases "c = roomCode u")
      case True
      with a have "users r' = ?us" by (auto simp: d split: if_splits)
      then show ?thesis
        using consistent_members [OF s r] consistent_sio [OF s r] True us Some
        by (auto simp: d)
    next
      case False
      with a have r': "rooms s c = Some r'" by (auto simp: d split: if_splits)
      have "sk \<notin> uid ` set (users r')"
        using consistent_members [OF s r'] Some False by auto
      then show ?thesis
        using consistent_members [OF s r'] consistent_sio [OF s r'] False Some
        by (auto simp: d)
    qed
    then show "uid ` set (users r') = {x. \<exists>u. user_table ?s' x = Some u \<and> roomCode u = c}"
      and "sio_rooms ?s' c = uid ` set (users r')" by simp_all
  next
    fix c assume a: "rooms ?s' c = None"
    show "sio_rooms ?s' c = {}"
    proof (cases "c = roomCode u")
      case True
      with a have "?us = []" by (auto simp: d split: if_splits)
      then have "uid ` set (users r) - {sk} = {}" using us by simp
      then show ?thesis using consistent_sio [OF s r] True by (simp add: d)
    next
      case False
      with a have "rooms s c = None" by (auto simp: d split: if_splits)
      then show ?thesis using consistent_no_room [OF s] by (simp add: d)
    qed
  qed
qed

lemma consistent_handle:
  "consistent s \<Longrightarrow> admissible s (clk, sk, ev) \<Longrightarrow> consistent (fst (handle clk sk ev s))"
  by (cases ev)
     (simp_all add: consistent_create consistent_join consistent_send consistent_typing
        consistent_add consistent_music consistent_select consistent_disconnect)

lemma consistent_foldl:
  "consistent s \<Longrightarrow> orderly_from s evs \<Longrightarrow> consistent (foldl step s evs)"
proof (induction evs arbitrary: s)
  case Nil
  then show ?case by simp
next
  case (Cons a evs)
  obtain clk sk ev where a: "a = (clk, sk, ev)" by (cases a)
  from Cons.prems have "consistent (step s a)" by (simp add: a consistent_handle)
  with Cons show ?case by simp
qed

lemma consistent_run: "orderly_from init evs \<Longrightarrow> consistent (run evs)"
  by (simp add: run_def consistent_foldl consistent_init)


text \<open>
  In a run where no generated code hits a live room and no socket joins twice, the ids
  in a room's \<^verbatim>\<open>users\<close> are the sockets whose user-table entry names the room.
\<close>

lemma orderly_membership:
  assumes "orderly_from init evs" and "rooms (run evs) c = Some r"
  shows "uid ` set (users r) = {sk. \<exists>u. user_table (run evs) sk = Some u \<and> roomCode u = c}"
  using consistent_members [OF consistent_run [OF assms(1)] assms(2)] .

subsection \<open>The example states\<close>

lemmas example_defs = ann_joined_def ann_created_def ann_bo_joined_def ann_joined_twice_def
  run_def init_def create_room_def join_room_def Let_def ann_def bo_def new_room_def

lemma ann_created_room: "rooms (run ann_created) ''AB12CD'' = Some (new_room ''AB12CD'')"
  by (simp add: ann_created_def run_def init_def create_room_def)

lemma ann_created_sio: "sio_rooms (run ann_created) ''AB12CD'' = {}"
  by (simp add: ann_created_def run_def init_def create_room_def)

lemma twice_A:
  "rooms (run ann_joined_twice) ''AAAAAA'' =
     Some ((new_room ''AAAAAA'')\<lparr>users := [ann],
             messages := [system_message clk0 (joined_text ''Ann'')]\<rparr>)"
  by (simp add: example_defs)

lemma twice_B:
  "rooms (run ann_joined_twice) ''BBBBBB'' =
     Some ((new_room ''BBBBBB'')\<lparr>users := [ann],
             messages := [system_message clk0 (joined_text ''Ann'')]\<rparr>)"
  by (simp add: example_defs)

lemma twice_user:
  "user_table (run ann_joined_twice) = [''c1'' \<mapsto> user.extend ann \<lparr>roomCode = ''BBBBBB''\<rparr>]"
  by (simp add: example_defs)



lemma ann_bo_sio: "sio_rooms (run ann_bo_joined) ''AB12CD'' = {''c1'', ''c2''}"
  by (auto simp: example_defs)


section \<open>Room codes\<close>

text \<open>
  C1, as stated, fails. Ann's room AB12CD is live and has Ann as its member. A second
  socket sends \<^verbatim>\<open>create-room\<close> and the generator returns AB12CD again: the handler answers
  \<^verbatim>\<open>room-created\<close> with that code, the room under AB12CD is now a new, empty one, and
  Ann's user-table entry still names AB12CD.
\<close>

theorem create_room_collision_counterexample:
  "map_option users (rooms (run ann_joined) ''AB12CD'') = Some [ann]
   \<and> handle clk0 ''c2'' (CreateRoom ''AB12CD'') (run ann_joined)
       = (put_room ''AB12CD'' (new_room ''AB12CD'') (run ann_joined),
          [({''c2''}, RoomCreated ''AB12CD'')])
   \<and> map_option users
        (rooms (run (ann_joined @ [(clk0, ''c2'', CreateRoom ''AB12CD'')])) ''AB12CD'') = Some []
   \<and> map_option roomCode
        (user_table (run (ann_joined @ [(clk0, ''c2'', CreateRoom ''AB12CD'')])) ''c1'')
       = Some ''AB12CD''"
  by (simp add: run_snoc ann_joined_room ann_joined_user create_room_def socket_emit_def new_room_def)

text \<open>
  C1, amended. After every run, two rooms stored under different keys of the room table
  have different codes: a room is stored under its own code. \<^verbatim>\<open>create-room\<close> itself checks
  nothing: in every state and for every generated code it stores a new empty room under
  that code (replacing a room that was there) and answers with the code.
\<close>

theorem registry_keyed_create_unguarded:
  "(rooms (run evs) c1 = Some r1 \<and> rooms (run evs) c2 = Some r2 \<and> c1 \<noteq> c2 \<longrightarrow> code r1 \<noteq> code r2)
   \<and> create_room generated sk s =
       (put_room generated (new_room generated) s, [({sk}, RoomCreated generated)])"
  using keyed_run [of evs] by (auto simp: keyed_def create_room_def socket_emit_def)

theorem registry_keyed_create_unguarded_witness:
  "code ((new_room ''AAAAAA'')\<lparr>users := [ann],
           messages := [system_message clk0 (joined_text ''Ann'')]\<rparr>)
   \<noteq> code ((new_room ''BBBBBB'')\<lparr>users := [ann],
           messages := [system_message clk0 (joined_text ''Ann'')]\<rparr>)"
proof -
  let ?rA = "(new_room ''AAAAAA'')\<lparr>users := [ann],
               messages := [system_message clk0 (joined_text ''Ann'')]\<rparr>"
  let ?rB = "(new_room ''BBBBBB'')\<lparr>users := [ann],
               messages := [system_message clk0 (joined_text ''Ann'')]\<rparr>"
  have "rooms (run ann_joined_twice) ''AAAAAA'' = Some ?rA
        \<and> rooms (run ann_joined_twice) ''BBBBBB'' = Some ?rB \<and> ''AAAAAA'' \<noteq> ''BBBBBB''"
    by (simp add: twice_A twice_B)
  with registry_keyed_create_unguarded [of ann_joined_twice "''AAAAAA''" ?rA "''BBBBBB''" ?rB]
  show ?thesis by blast
qed

section \<open>Membership\<close>

text \<open>
  C2 (a room's members are the sessions that name the room) fails on this run: socket c1
  joins room AAAAAA and then room BBBBBB. The user table has one entry, which names
  BBBBBB, while room AAAAAA still lists c1 in \<^verbatim>\<open>users\<close>. When c1 then disconnects, only
  BBBBBB is cleaned up: the user table is empty, and room AAAAAA stays in the table with
  c1 as its member. A second \<^verbatim>\<open>join-room\<close> for the same room lists the socket twice.
\<close>

theorem rejoin_leaves_stale_member:
  "map_option users (rooms (run ann_joined_twice) ''AAAAAA'') = Some [ann]
   \<and> uid ann = ''c1''
   \<and> map_option users (rooms (run ann_joined_again) ''AB12CD'') = Some [ann, ann]
   \<and> user_table (run ann_joined_twice) = [''c1'' \<mapsto> user.extend ann \<lparr>roomCode = ''BBBBBB''\<rparr>]
   \<and> user_table (run (ann_joined_twice @ [(clk0, ''c1'', Disconnect)])) = Map.empty
   \<and> map_option users (rooms (run (ann_joined_twice @ [(clk0, ''c1'', Disconnect)])) ''AAAAAA'')
       = Some [ann]
   \<and> rooms (run (ann_joined_twice @ [(clk0, ''c1'', Disconnect)])) ''BBBBBB'' = None"
  by (simp add: run_snoc twice_A twice_B twice_user disconnect_def Let_def new_room_def
        ann_joined_again_def join_room_found [OF ann_joined_room])
     (simp add: ann_def participant_def)

section \<open>The snapshot of a join\<close>

text \<open>
  C3, as stated, fails. Ann is the first to join the new room AB12CD. The \<^verbatim>\<open>room-joined\<close>
  snapshot she receives lists her as the only member, but its message list is empty: the
  "joined the room" message is appended after the snapshot is emitted and reaches her in
  the \<^verbatim>\<open>new-message\<close> event that ends the handler.
\<close>

theorem join_snapshot_counterexample:
  "snd (handle clk0 ''c1'' (JoinRoom ''AB12CD'' ''Ann'') (run ann_created)) =
     [({''c1''}, RoomJoined \<lparr>code = ''AB12CD'', users = [ann], messages = [], playlist = [],
                           currentSong = None, isPlaying = False, currentTime = 0\<rparr>),
      ({}, UserJoined ann),
      ({''c1''}, UsersUpdated [ann]),
      ({''c1''}, NewMessage (system_message clk0 (joined_text ''Ann'')))]"
  by (simp add: join_room_found [OF ann_created_room] ann_created_sio new_room_def
      participant_def ann_def)

text \<open>
  C3, amended. A socket joins a live room \<open>r\<close>. The \<^verbatim>\<open>room-joined\<close> event goes to the
  requester alone and is a snapshot of the room with the new participant appended to the
  members and with the messages the room had before the join. The system message
  "joined the room" is appended to the room's log after that and is delivered, as a
  \<^verbatim>\<open>new-message\<close> event, to every socket of the room, the requester included. For the first
  joiner of a new room the snapshot therefore has that participant as its only member and
  no message.
\<close>

theorem join_room_snapshot:
  assumes "rooms s c = Some r"
  shows "snd (join_room clk sk c name s) =
      [({sk}, RoomJoined \<lparr>code = c, users = users r @ [participant sk name], messages = messages r,
                         playlist = playlist r, currentSong = currentSong r,
                         isPlaying = isPlaying r, currentTime = currentTime r\<rparr>),
       (sio_rooms s c - {sk}, UserJoined (participant sk name)),
       (insert sk (sio_rooms s c), UsersUpdated (users r @ [participant sk name])),
       (insert sk (sio_rooms s c), NewMessage (system_message clk (joined_text name)))]
    \<and> rooms (fst (join_room clk sk c name s)) c =
        Some (r\<lparr>users := users r @ [participant sk name],
                messages := messages r @ [system_message clk (joined_text name)]\<rparr>)"
  by (simp add: join_room_found [OF assms])

theorem join_room_snapshot_witness:
  "snd (join_room clk0 ''c1'' ''AB12CD'' ''Ann'' (run ann_created)) =
     [({''c1''}, RoomJoined \<lparr>code = ''AB12CD'', users = [participant ''c1'' ''Ann''],
                           messages = [], playlist = [],
                           currentSong = None, isPlaying = False, currentTime = 0\<rparr>),
      ({}, UserJoined (participant ''c1'' ''Ann'')),
      ({''c1''}, UsersUpdated [participant ''c1'' ''Ann'']),
      ({''c1''}, NewMessage (system_message clk0 (joined_text ''Ann'')))]"
  using join_room_snapshot [OF ann_created_room, of clk0 "''c1''" "''Ann''"]
  by (simp add: ann_created_sio new_room_def)

section \<open>The playhead\<close>

text \<open>
  C5, as stated, fails. Ann, joined to room AB12CD, sends \<^verbatim>\<open>music-control\<close> with
  \<open>currentTime = -5\<close>; the room's \<open>currentTime\<close> is then \<open>-5\<close>.
\<close>

theorem current_time_negative_counterexample:
  "map_option currentTime
     (rooms (run (ann_joined @ [(clk0, ''c1'', MusicControl True (Some (- 5)))])) ''AB12CD'')
   = Some (- 5)"
  by (simp add: run_snoc music_control_def ann_joined_user ann_joined_room Let_def)

text \<open>
  C5, amended. In every run whose \<^verbatim>\<open>music-control\<close> events supply no negative
  \<open>currentTime\<close> (a value that is absent counts as 0), every room of the table has
  \<open>currentTime \<ge> 0\<close>: \<^verbatim>\<open>create-room\<close> and \<^verbatim>\<open>select-song\<close> write 0, \<^verbatim>\<open>music-control\<close>
  writes the supplied value as it is, and no other handler writes the field.
\<close>

theorem current_time_nonneg:
  "list_all nonneg_control evs \<Longrightarrow> rooms (run evs) c = Some r \<Longrightarrow> 0 \<le> currentTime r"
  using nonneg_run [of evs] by (simp add: nonneg_rooms_def)

theorem current_time_nonneg_witness:
  "list_all nonneg_control (ann_joined @ [(clk0, ''c1'', MusicControl True (Some 42))])
   \<and> 0 \<le> currentTime ((new_room ''AB12CD'')\<lparr>users := [ann],
             messages := [system_message clk0 (joined_text ''Ann'')],
             isPlaying := True, currentTime := 42\<rparr>)"
proof -
  let ?evs = "ann_joined @ [(clk0, ''c1'', MusicControl True (Some 42))]"
  have a: "list_all nonneg_control ?evs"
    by (simp add: ann_joined_def ann_created_def)
  have r: "rooms (run ?evs) ''AB12CD'' = Some ((new_room ''AB12CD'')\<lparr>users := [ann],
             messages := [system_message clk0 (joined_text ''Ann'')],
             isPlaying := True, currentTime := 42\<rparr>)"
    by (simp add: run_snoc music_control_def ann_joined_user ann_joined_room Let_def)
  from a current_time_nonneg [OF a r] show ?thesis by (rule conjI)
qed

section \<open>The recipients of music-sync\<close>










end
